theory Spec2Isabelle
  imports Complex_Main "HOL-Library.Word" "HOL-Library.Multiset" "HOL-Library.Option_ord"
begin

section \<open>Values of the client\<close>

text \<open>
  The client is TypeScript. A JavaScript string is a sequence of UTF-16 code units, and
  \<^verbatim>\<open>length\<close> and \<^verbatim>\<open>substring\<close> count code units, so display text (fund names,
  strategy names, chart labels) is a list of 16-bit words. Identifiers that the code only
  compares for equality (fund codes, column keys, category names, dates) are HOL strings.
  A JavaScript number that arrives in a JSON response is a finite double; the client
  only copies such numbers, tests them for truthiness and takes \<^verbatim>\<open>Math.abs\<close>, all of
  which are exact, so a number is a real and \<^verbatim>\<open>null\<close>/\<^verbatim>\<open>undefined\<close> is \<open>None\<close>.
\<close>

type_synonym js_string = "16 word list"

text \<open>\<^verbatim>\<open>s.substring(start, end)\<close> for non-negative integer arguments: the two indices are
  swapped when out of order and clamped to the length.\<close>

definition substring :: "js_string \<Rightarrow> nat \<Rightarrow> nat \<Rightarrow> js_string" where
  "substring s start stop = take (max start stop - min start stop) (drop (min start stop) s)"

text \<open>\<^verbatim>\<open>x || 0\<close> on a number that may be null or undefined: every falsy operand
  (\<^verbatim>\<open>null\<close>, \<^verbatim>\<open>undefined\<close>, \<^verbatim>\<open>0\<close>) gives \<open>0\<close>.\<close>

definition or_zero :: "real option \<Rightarrow> real" where
  "or_zero x = (case x of None \<Rightarrow> 0 | Some v \<Rightarrow> if v = 0 then 0 else v)"

text \<open>Optional chaining \<^verbatim>\<open>obj?.field\<close>.\<close>

definition opt_chain :: "'a option \<Rightarrow> ('a \<Rightarrow> 'b option) \<Rightarrow> 'b option" where
  "opt_chain obj field = (case obj of None \<Rightarrow> None | Some x \<Rightarrow> field x)"

subsection \<open>Response types (frontend/src/lib/api.ts)\<close>

record PerformanceSnapshot =
  report_date :: string
  weekly_return :: "real option"
  monthly_return :: "real option"
  quarterly_return :: "real option"
  annual_return :: "real option"
  cumulative_return :: "real option"
  max_drawdown :: "real option"
  annual_sharpe :: "real option"
  annual_volatility :: "real option"

record Fund =
  fund_code :: string
  fund_name :: js_string
  manager_id :: "int option"
  manager_name :: "js_string option"
  strategy_id :: "int option"
  strategy_name :: "js_string option"
  launch_date :: "string option"
  latest_performance :: "PerformanceSnapshot option"

text \<open>\<^verbatim>\<open>StrategyDistribution\<close> has the fields \<^verbatim>\<open>name\<close> and \<^verbatim>\<open>value\<close>.\<close>

record StrategyDistribution =
  sd_name :: js_string
  sd_value :: real

text \<open>The body that \<^verbatim>\<open>compareFunds\<close> posts to \<^verbatim>\<open>/analytics/compare\<close>.\<close>

record CompareRequest =
  fund_codes :: "string list"
  start_date :: "string option"
  end_date :: "string option"

definition compareFunds :: "string list \<Rightarrow> string option \<Rightarrow> string option \<Rightarrow> CompareRequest" where
  "compareFunds fundCodes startDate endDate =
     \<lparr>fund_codes = fundCodes, start_date = startDate, end_date = endDate\<rparr>"

text \<open>An entry of the comparison response, with the fields the Compare page reads
  (the page types it \<^verbatim>\<open>any\<close>); \<^verbatim>\<open>latest\<close> may be null.\<close>

record CompareFund =
  cf_fund_code :: string
  cf_fund_name :: js_string
  cf_manager_name :: "js_string option"
  latest :: "PerformanceSnapshot option"

record CompareData =
  funds :: "CompareFund list"
  date_range :: "string list"

section \<open>Strategy pie chart (StrategyPieChart)\<close>

record PieDatum =
  pie_value :: real
  pie_name :: js_string

text \<open>The three code units of \<^verbatim>\<open>'...'\<close>.\<close>

definition ellipsis :: js_string where
  "ellipsis = [46, 46, 46]"

text \<open>The \<^verbatim>\<open>data\<close> of the chart's only series:
  \<^verbatim>\<open>data.slice(0, 10).map((item) => ({value: item.value, name: ...}))\<close>.\<close>

definition pie_series_data :: "StrategyDistribution list \<Rightarrow> PieDatum list" where
  "pie_series_data data =
     map (\<lambda>item. \<lparr>pie_value = sd_value item,
                   pie_name = (if length (sd_name item) > 15
                               then substring (sd_name item) 0 15 @ ellipsis
                               else sd_name item)\<rparr>)
         (take 10 data)"

section \<open>Column configuration (frontend/src/lib/columnConfig.ts)\<close>

text \<open>A column's \<^verbatim>\<open>label\<close> is display text that no function below reads; it is left out
  of the record.\<close>

record ColumnConfig =
  key :: string
  category :: string
  sortable :: bool
  defaultVisible :: bool

definition PERFORMANCE_COLUMNS :: "ColumnConfig list" where
  "PERFORMANCE_COLUMNS =
  [\<lparr>key = ''fund_name'', category = ''basic'', sortable = False, defaultVisible = True\<rparr>,
   \<lparr>key = ''manager_name'', category = ''basic'', sortable = False, defaultVisible = True\<rparr>,
   \<lparr>key = ''strategy_name'', category = ''basic'', sortable = False, defaultVisible = True\<rparr>,
   \<lparr>key = ''weekly_return'', category = ''short_term'', sortable = True, defaultVisible = False\<rparr>,
   \<lparr>key = ''weekly_excess'', category = ''short_term'', sortable = True, defaultVisible = False\<rparr>,
   \<lparr>key = ''monthly_return'', category = ''short_term'', sortable = True, defaultVisible = False\<rparr>,
   \<lparr>key = ''monthly_excess'', category = ''short_term'', sortable = True, defaultVisible = True\<rparr>,
   \<lparr>key = ''monthly_max_drawdown'', category = ''short_term'', sortable = True, defaultVisible = False\<rparr>,
   \<lparr>key = ''quarterly_return'', category = ''medium_term'', sortable = True, defaultVisible = True\<rparr>,
   \<lparr>key = ''quarterly_max_drawdown'', category = ''medium_term'', sortable = True, defaultVisible = False\<rparr>,
   \<lparr>key = ''semi_annual_return'', category = ''medium_term'', sortable = True, defaultVisible = False\<rparr>,
   \<lparr>key = ''semi_annual_excess'', category = ''medium_term'', sortable = True, defaultVisible = False\<rparr>,
   \<lparr>key = ''semi_annual_max_drawdown'', category = ''medium_term'', sortable = True, defaultVisible = False\<rparr>,
   \<lparr>key = ''annual_return_ytd'', category = ''annual'', sortable = True, defaultVisible = False\<rparr>,
   \<lparr>key = ''annual_excess'', category = ''annual'', sortable = True, defaultVisible = True\<rparr>,
   \<lparr>key = ''annual_max_drawdown'', category = ''annual'', sortable = True, defaultVisible = False\<rparr>,
   \<lparr>key = ''ytd_return'', category = ''annual'', sortable = True, defaultVisible = False\<rparr>,
   \<lparr>key = ''ytd_excess'', category = ''annual'', sortable = True, defaultVisible = False\<rparr>,
   \<lparr>key = ''ytd_max_drawdown'', category = ''annual'', sortable = True, defaultVisible = False\<rparr>,
   \<lparr>key = ''annual_return'', category = ''inception'', sortable = True, defaultVisible = True\<rparr>,
   \<lparr>key = ''cumulative_return'', category = ''inception'', sortable = True, defaultVisible = True\<rparr>,
   \<lparr>key = ''max_drawdown'', category = ''inception'', sortable = True, defaultVisible = True\<rparr>,
   \<lparr>key = ''annual_volatility'', category = ''inception'', sortable = True, defaultVisible = False\<rparr>,
   \<lparr>key = ''annual_sharpe'', category = ''risk_adjusted'', sortable = True, defaultVisible = True\<rparr>,
   \<lparr>key = ''annual_calmar'', category = ''risk_adjusted'', sortable = True, defaultVisible = False\<rparr>,
   \<lparr>key = ''annual_sortino'', category = ''risk_adjusted'', sortable = True, defaultVisible = False\<rparr>,
   \<lparr>key = ''inception_sharpe'', category = ''risk_adjusted'', sortable = True, defaultVisible = False\<rparr>,
   \<lparr>key = ''inception_calmar'', category = ''risk_adjusted'', sortable = True, defaultVisible = False\<rparr>,
   \<lparr>key = ''inception_sortino'', category = ''risk_adjusted'', sortable = True, defaultVisible = False\<rparr>]"

definition getDefaultVisibleColumns :: "string list" where
  "getDefaultVisibleColumns = map key (filter defaultVisible PERFORMANCE_COLUMNS)"

section \<open>Column selector (ColumnSelector)\<close>

text \<open>
  The component is controlled: \<^verbatim>\<open>visibleColumns\<close> is the state of the Search page and
  \<^verbatim>\<open>onColumnsChange\<close> is its setter, so each handler is a function from the visible
  columns to the visible columns after the call. A handler that returns without calling
  \<^verbatim>\<open>onColumnsChange\<close> leaves them as they are.
\<close>

definition toggleColumn :: "string list \<Rightarrow> string \<Rightarrow> string list" where
  "toggleColumn visibleColumns columnKey =
     (let column = find (\<lambda>col. key col = columnKey) PERFORMANCE_COLUMNS in
      if opt_chain column (\<lambda>col. Some (category col)) = Some ''basic'' then visibleColumns
      else if columnKey \<in> set visibleColumns
           then filter (\<lambda>k. k \<noteq> columnKey) visibleColumns
           else visibleColumns @ [columnKey])"

definition selectAll :: "string list \<Rightarrow> string list" where
  "selectAll visibleColumns = map key PERFORMANCE_COLUMNS"

definition resetToDefault :: "string list \<Rightarrow> string list" where
  "resetToDefault visibleColumns = getDefaultVisibleColumns"

datatype column_action = ToggleColumn string | SelectAll | ResetToDefault

fun column_step :: "string list \<Rightarrow> column_action \<Rightarrow> string list" where
  "column_step v (ToggleColumn k) = toggleColumn v k"
| "column_step v SelectAll = selectAll v"
| "column_step v ResetToDefault = resetToDefault v"

text \<open>The visible columns after a sequence of user actions.\<close>

definition column_run :: "string list \<Rightarrow> column_action list \<Rightarrow> string list" where
  "column_run v acts = foldl column_step v acts"

section \<open>Compare page (Compare)\<close>

record CompareState =
  searchKeyword :: js_string
  selectedFunds :: "Fund list"
  showDropdown :: bool

definition initial_compare_state :: CompareState where
  "initial_compare_state = \<lparr>searchKeyword = [], selectedFunds = [], showDropdown = False\<rparr>"

definition addFund :: "CompareState \<Rightarrow> Fund \<Rightarrow> CompareState" where
  "addFund s fund =
     (if length (selectedFunds s) < 5
         \<and> find (\<lambda>f. fund_code f = fund_code fund) (selectedFunds s) = None
      then s\<lparr>selectedFunds := selectedFunds s @ [fund], searchKeyword := [], showDropdown := False\<rparr>
      else s)"

definition removeFund :: "CompareState \<Rightarrow> string \<Rightarrow> CompareState" where
  "removeFund s fundCode =
     s\<lparr>selectedFunds := filter (\<lambda>f. fund_code f \<noteq> fundCode) (selectedFunds s)\<rparr>"

definition handleInputFocus :: "CompareState \<Rightarrow> CompareState" where
  "handleInputFocus s = s\<lparr>showDropdown := True\<rparr>"

text \<open>The blur handler closes the dropdown from a timer; the delay is not modelled.\<close>

definition handleInputBlur :: "CompareState \<Rightarrow> CompareState" where
  "handleInputBlur s = s\<lparr>showDropdown := False\<rparr>"

datatype compare_event =
    AddFund Fund
  | RemoveFund string
  | InputChange js_string
  | InputFocus
  | InputBlur
  | SearchButton

fun compare_step :: "CompareState \<Rightarrow> compare_event \<Rightarrow> CompareState" where
  "compare_step s (AddFund fund) = addFund s fund"
| "compare_step s (RemoveFund fundCode) = removeFund s fundCode"
| "compare_step s (InputChange kw) = s\<lparr>searchKeyword := kw\<rparr>"
| "compare_step s InputFocus = handleInputFocus s"
| "compare_step s InputBlur = handleInputBlur s"
| "compare_step s SearchButton = s\<lparr>showDropdown := True\<rparr>"

definition compare_run :: "compare_event list \<Rightarrow> CompareState" where
  "compare_run evs = foldl compare_step initial_compare_state evs"

text \<open>The compare query: \<^verbatim>\<open>enabled: selectedFunds.length >= 2\<close>, and when enabled its
  query function posts \<^verbatim>\<open>compareFunds(selectedFunds.map(f => f.fund_code))\<close>.\<close>

definition compare_enabled :: "CompareState \<Rightarrow> bool" where
  "compare_enabled s = (length (selectedFunds s) \<ge> 2)"

definition compare_query :: "CompareState \<Rightarrow> CompareRequest option" where
  "compare_query s =
     (if compare_enabled s then Some (compareFunds (map fund_code (selectedFunds s)) None None)
      else None)"

subsection \<open>Radar chart\<close>

record RadarIndicator =
  ind_name :: js_string
  ind_max :: real

record RadarDatum =
  datum_value :: "real list"
  datum_name :: js_string

record RadarSeries =
  series_name :: js_string
  series_type :: string
  series_data :: "RadarDatum list"

record RadarOption =
  legend_data :: "js_string list"
  legend_bottom :: nat
  radar_indicator :: "RadarIndicator list"
  radar_radius :: string
  series :: "RadarSeries list"

text \<open>The five axes; the names are the code units of the Chinese labels of the source
  (annual return, Sharpe ratio, cumulative return, maximum drawdown, volatility).\<close>

definition indicators :: "RadarIndicator list" where
  "indicators =
     [\<lparr>ind_name = [0x5E74, 0x5316, 0x6536, 0x76CA], ind_max = 1\<rparr>,
      \<lparr>ind_name = [0x590F, 0x666E, 0x6BD4, 0x7387], ind_max = 5\<rparr>,
      \<lparr>ind_name = [0x7D2F, 0x8BA1, 0x6536, 0x76CA], ind_max = 2\<rparr>,
      \<lparr>ind_name = [0x6700, 0x5927, 0x56DE, 0x64A4], ind_max = 0.5\<rparr>,
      \<lparr>ind_name = [0x6CE2, 0x52A8, 0x7387], ind_max = 0.5\<rparr>]"

definition radar_series :: "CompareFund \<Rightarrow> RadarSeries" where
  "radar_series fund =
     (let latest = latest fund in
      \<lparr>series_name = substring (cf_fund_name fund) 0 10,
       series_type = ''radar'',
       series_data =
         [\<lparr>datum_value =
             [\<bar>or_zero (opt_chain latest annual_return)\<bar>,
              \<bar>or_zero (opt_chain latest annual_sharpe)\<bar>,
              \<bar>or_zero (opt_chain latest cumulative_return)\<bar>,
              \<bar>or_zero (opt_chain latest max_drawdown)\<bar>,
              \<bar>or_zero (opt_chain latest annual_volatility)\<bar>],
           datum_name = substring (cf_fund_name fund) 0 10\<rparr>]\<rparr>)"

text \<open>\<^verbatim>\<open>getRadarOption\<close> reads the query's data, which is undefined until the response
  arrives. It returns the empty object \<^verbatim>\<open>{}\<close>, here \<open>None\<close>, when there is no fund.\<close>

definition getRadarOption :: "CompareData option \<Rightarrow> RadarOption option" where
  "getRadarOption compareData =
     (case compareData of
        None \<Rightarrow> None
      | Some d \<Rightarrow>
          if length (funds d) = 0 then None
          else Some \<lparr>legend_data = map (\<lambda>f. substring (cf_fund_name f) 0 10) (funds d),
                     legend_bottom = 0,
                     radar_indicator = indicators,
                     radar_radius = ''60%'',
                     series = map radar_series (funds d)\<rparr>)"

subsection \<open>Auxiliary notions for the Compare page\<close>

text \<open>The invariant of the selection: at most five funds, no fund code twice. Every
  handler keeps it from whichever state it reads, so it also holds when a handler works
  on the state of an earlier render.\<close>

definition compare_inv :: "CompareState \<Rightarrow> bool" where
  "compare_inv s = (length (selectedFunds s) \<le> 5 \<and> distinct (map fund_code (selectedFunds s)))"

text \<open>A metric of a fund's latest snapshot as the radar chart is meant to read it: the
  number when the snapshot and the metric are there, and \<open>0\<close> otherwise.\<close>

definition latest_metric :: "(PerformanceSnapshot \<Rightarrow> real option) \<Rightarrow> CompareFund \<Rightarrow> real" where
  "latest_metric m fund =
     (case latest fund of None \<Rightarrow> 0 | Some snap \<Rightarrow> (case m snap of None \<Rightarrow> 0 | Some v \<Rightarrow> v))"

text \<open>Sample data: a fund with nothing but its code, and the \<^verbatim>\<open>latest\<close> object of the
  comparison example of the API document, which carries no volatility.\<close>

definition fund_with_code :: "string \<Rightarrow> Fund" where
  "fund_with_code c = \<lparr>fund_code = c, fund_name = [], manager_id = None, manager_name = None,
     strategy_id = None, strategy_name = None, launch_date = None, latest_performance = None\<rparr>"

definition documented_latest :: PerformanceSnapshot where
  "documented_latest = \<lparr>report_date = ''2025-12-19'', weekly_return = None,
     monthly_return = None, quarterly_return = None, annual_return = Some 0.2534,
     cumulative_return = Some 0.8923, max_drawdown = Some (- 0.1234),
     annual_sharpe = Some 2.15, annual_volatility = None\<rparr>"

section \<open>Performance store (docs/DATABASE.md, table fund\_performance)\<close>

text \<open>
  The table as its \<^verbatim>\<open>CREATE TABLE\<close> statement declares it: an auto-increment primary key
  \<^verbatim>\<open>id\<close>, \<^verbatim>\<open>fund_code\<close> and \<^verbatim>\<open>report_date\<close> both \<^verbatim>\<open>NOT NULL\<close>, the unique key
  \<^verbatim>\<open>uk_fund_date (fund_code, report_date)\<close> and the foreign key from \<^verbatim>\<open>fund_code\<close> to
  the table of funds. The other columns (\<^verbatim>\<open>data_source\<close>, the 27 nullable metrics and
  \<^verbatim>\<open>created_at\<close>) carry no constraint and travel as one value of any type. The store is
  a relational engine: an \<^verbatim>\<open>INSERT\<close> that violates a constraint fails and changes
  nothing. Codes are compared by equality, the finest collation.
\<close>

type_synonym sql_date = "nat \<times> nat \<times> nat"

record 'm perf_row =
  perf_id :: nat
  perf_fund_code :: string
  perf_report_date :: sql_date
  perf_columns :: 'm

text \<open>The values of an \<^verbatim>\<open>INSERT\<close>; a value may be \<^verbatim>\<open>NULL\<close>.\<close>

record 'm perf_values =
  ins_fund_code :: "string option"
  ins_report_date :: "sql_date option"
  ins_columns :: 'm

record 'm store =
  fund_table :: "string list"
  fund_performance :: "'m perf_row list"
  auto_increment :: nat

datatype sql_error = NotNull string | DuplicateEntry string | ForeignKeyFails string

definition uk_fund_date :: "'m perf_row \<Rightarrow> string \<times> sql_date" where
  "uk_fund_date r = (perf_fund_code r, perf_report_date r)"

definition insert_performance :: "'m store \<Rightarrow> 'm perf_values \<Rightarrow> sql_error + 'm store" where
  "insert_performance st v =
     (case ins_fund_code v of
        None \<Rightarrow> Inl (NotNull ''fund_code'')
      | Some c \<Rightarrow>
         (case ins_report_date v of
            None \<Rightarrow> Inl (NotNull ''report_date'')
          | Some d \<Rightarrow>
              if (c, d) \<in> set (map uk_fund_date (fund_performance st))
              then Inl (DuplicateEntry ''uk_fund_date'')
              else if c \<notin> set (fund_table st) then Inl (ForeignKeyFails ''fund_code'')
              else Inr (st\<lparr>fund_performance := fund_performance st @
                             [\<lparr>perf_id = auto_increment st, perf_fund_code = c,
                               perf_report_date = d, perf_columns = ins_columns v\<rparr>],
                           auto_increment := auto_increment st + 1\<rparr>)))"

text \<open>A fund's code is the primary key of the table of funds.\<close>

definition insert_fund :: "'m store \<Rightarrow> string \<Rightarrow> sql_error + 'm store" where
  "insert_fund st c =
     (if c \<in> set (fund_table st) then Inl (DuplicateEntry ''PRIMARY'')
      else Inr (st\<lparr>fund_table := fund_table st @ [c]\<rparr>))"

datatype 'm statement = InsertFund string | InsertPerformance "'m perf_values"

fun execute :: "'m store \<Rightarrow> 'm statement \<Rightarrow> sql_error + 'm store" where
  "execute st (InsertFund c) = insert_fund st c"
| "execute st (InsertPerformance v) = insert_performance st v"

text \<open>A failed statement leaves the store as it was.\<close>

definition store_step :: "'m store \<Rightarrow> 'm statement \<Rightarrow> 'm store" where
  "store_step st stmt = (case execute st stmt of Inl e \<Rightarrow> st | Inr st' \<Rightarrow> st')"

definition empty_store :: "'m store" where
  "empty_store = \<lparr>fund_table = [], fund_performance = [], auto_increment = 1\<rparr>"

definition store_run :: "'m statement list \<Rightarrow> 'm store" where
  "store_run stmts = foldl store_step empty_store stmts"

section \<open>Query layer: the search operation\<close>

text \<open>
  The server of the dashboard (the query functions of \<^verbatim>\<open>src/database/queries.py\<close> and the
  routes of \<^verbatim>\<open>src/api/app.py\<close>) is not among the sources; the sources hold its API
  document and its client. The definitions of this section follow the words of the
  specification (sections 4.1, 4.2 and 8), with the list of sort fields and the bounds of
  the page size taken from the API document.
\<close>

text \<open>Modelled from the spec: the sort direction \<^verbatim>\<open>order\<close> of the missing search route,
  \<^verbatim>\<open>asc\<close> or \<^verbatim>\<open>desc\<close>.\<close>

datatype sort_order = Asc | Desc

text \<open>Modelled from the spec: a row of the missing search query, a fund joined with its
  performance snapshot of one report date. A metric that is \<^verbatim>\<open>NULL\<close> has no entry in
  \<open>row_metrics\<close>.\<close>

record search_row =
  row_fund_code :: string
  row_fund_name :: string
  row_manager_name :: "string option"
  row_strategy_id :: "int option"
  row_report_date :: sql_date
  row_metrics :: "(string \<times> real) list"

text \<open>Modelled from the spec: the data the missing search query reads, the joined rows
  and the most recent report date available (which of the two candidates of section 9
  that is, is left to the data).\<close>

record dataset =
  ds_rows :: "search_row list"
  ds_latest_date :: "sql_date option"

text \<open>Modelled from the spec: the inputs of the missing search operation (section 4.1),
  after the boundary has applied its defaults.\<close>

record search_params =
  keyword :: "string option"
  q_strategy_id :: "int option"
  min_annual_return :: "real option"
  q_max_drawdown :: "real option"
  min_sharpe :: "real option"
  q_report_date :: "sql_date option"
  sort_by :: string
  order :: sort_order
  q_page :: int
  q_page_size :: int

text \<open>Modelled from the spec: the envelope of a paginated list of the missing search
  route (section 4.2); its field \<^verbatim>\<open>total\<close> is \<open>total_rows\<close> here.\<close>

record search_page =
  items :: "search_row list"
  total_rows :: nat
  page :: nat
  page_size :: nat
  total_pages :: nat

text \<open>Modelled from the spec: the error taxonomy of the missing server (section 7), as
  far as the search operation raises it.\<close>

datatype query_error = ValidationError string

text \<open>Modelled from the spec: the allow-list of sort fields of the missing search
  operation; the specification does not list it, these are the sort fields of the API
  document.\<close>

definition SORT_FIELDS :: "string list" where
  "SORT_FIELDS =
     [''weekly_return'', ''weekly_excess'',
      ''monthly_return'', ''monthly_excess'', ''monthly_max_drawdown'',
      ''quarterly_return'', ''quarterly_max_drawdown'',
      ''semi_annual_return'', ''semi_annual_excess'',
      ''annual_return'', ''annual_return_ytd'', ''annual_excess'',
      ''cumulative_return'', ''max_drawdown'', ''annual_volatility'',
      ''annual_sharpe'', ''annual_calmar'', ''annual_sortino'',
      ''inception_sharpe'', ''inception_calmar'', ''inception_sortino'']"

text \<open>Modelled from the spec: the value of a metric column of a row of the missing
  query, \<open>None\<close> for \<^verbatim>\<open>NULL\<close>.\<close>

definition metric :: "string \<Rightarrow> search_row \<Rightarrow> real option" where
  "metric f r = map_of (row_metrics r) f"

text \<open>Modelled from the spec: the keyword match of the missing search query; the keyword
  occurs somewhere in the text.\<close>

fun is_infix :: "'a list \<Rightarrow> 'a list \<Rightarrow> bool" where
  "is_infix xs [] = (xs = [])"
| "is_infix xs (y # ys) = (take (length xs) (y # ys) = xs \<or> is_infix xs ys)"

text \<open>Modelled from the spec: a lower threshold on a metric of the missing search
  query; a row whose metric is \<^verbatim>\<open>NULL\<close> does not pass a threshold that is set.\<close>

definition at_least :: "real option \<Rightarrow> real option \<Rightarrow> bool" where
  "at_least bound v =
     (case bound of None \<Rightarrow> True | Some lo \<Rightarrow> (case v of None \<Rightarrow> False | Some x \<Rightarrow> lo \<le> x))"

text \<open>Modelled from the spec: an upper threshold on a metric of the missing search
  query, with the same treatment of \<^verbatim>\<open>NULL\<close>.\<close>

definition at_most :: "real option \<Rightarrow> real option \<Rightarrow> bool" where
  "at_most bound v =
     (case bound of None \<Rightarrow> True | Some hi \<Rightarrow> (case v of None \<Rightarrow> False | Some x \<Rightarrow> x \<le> hi))"

text \<open>Modelled from the spec: the filter of the missing search query (section 4.1): the
  report date (the most recent available one when the request names none), the keyword
  against fund name, manager name and fund code, the strategy, and the three
  thresholds.\<close>

definition matches :: "dataset \<Rightarrow> search_params \<Rightarrow> search_row \<Rightarrow> bool" where
  "matches ds p r =
     ((case q_report_date p of None \<Rightarrow> ds_latest_date ds | Some d \<Rightarrow> Some d)
         = Some (row_report_date r)
      \<and> (case keyword p of
            None \<Rightarrow> True
          | Some kw \<Rightarrow> is_infix kw (row_fund_name r)
                       \<or> (case row_manager_name r of None \<Rightarrow> False | Some m \<Rightarrow> is_infix kw m)
                       \<or> is_infix kw (row_fund_code r))
      \<and> (case q_strategy_id p of None \<Rightarrow> True | Some s \<Rightarrow> row_strategy_id r = Some s)
      \<and> at_least (min_annual_return p) (metric ''annual_return'' r)
      \<and> at_most (q_max_drawdown p) (metric ''max_drawdown'' r)
      \<and> at_least (min_sharpe p) (metric ''annual_sharpe'' r))"

text \<open>Modelled from the spec: the rows of the data that pass the filter of the missing
  search query, in the row order of the data.\<close>

definition matching_rows :: "dataset \<Rightarrow> search_params \<Rightarrow> search_row list" where
  "matching_rows ds p = filter (matches ds p) (ds_rows ds)"

text \<open>Modelled from the spec: the ordering of the missing search query, a stable
  insertion sort by a key under a given comparison, so that rows with tied keys keep the
  row order of the data in either direction. \<^verbatim>\<open>NULL\<close> is below every number.\<close>

fun insort_by :: "('k \<Rightarrow> 'k \<Rightarrow> bool) \<Rightarrow> ('a \<Rightarrow> 'k) \<Rightarrow> 'a \<Rightarrow> 'a list \<Rightarrow> 'a list" where
  "insort_by le k x [] = [x]"
| "insort_by le k x (y # ys) =
     (if le (k x) (k y) then x # y # ys else y # insort_by le k x ys)"

text \<open>Modelled from the spec: the whole ordering of the missing search query, every
  row inserted in turn.\<close>

definition order_by :: "('k \<Rightarrow> 'k \<Rightarrow> bool) \<Rightarrow> ('a \<Rightarrow> 'k) \<Rightarrow> 'a list \<Rightarrow> 'a list" where
  "order_by le k xs = foldr (insort_by le k) xs []"

text \<open>Modelled from the spec: the filtered rows of the missing search query in the
  requested order, before pagination.\<close>

definition ordered_rows :: "dataset \<Rightarrow> search_params \<Rightarrow> search_row list" where
  "ordered_rows ds p =
     (case order p of
        Asc \<Rightarrow> order_by (\<lambda>a b. a \<le> b) (metric (sort_by p)) (matching_rows ds p)
      | Desc \<Rightarrow> order_by (\<lambda>a b. a \<ge> b) (metric (sort_by p)) (matching_rows ds p))"

text \<open>Modelled from the spec: the validity of the inputs of the missing search operation:
  a page number of at least 1, a page size from 1 to 100, a sort field of the
  allow-list.\<close>

definition valid_search :: "search_params \<Rightarrow> bool" where
  "valid_search p =
     (1 \<le> q_page p \<and> 1 \<le> q_page_size p \<and> q_page_size p \<le> 100 \<and> sort_by p \<in> set SORT_FIELDS)"

text \<open>Modelled from the spec: the missing search operation (section 4.1): invalid inputs
  are a validation error; otherwise the page of the ordered rows, the count of all
  matching rows and the count of pages, the least number of pages of the page size that
  hold all rows.\<close>

definition search_funds :: "dataset \<Rightarrow> search_params \<Rightarrow> query_error + search_page" where
  "search_funds ds p =
     (if q_page p < 1 then Inl (ValidationError ''page'')
      else if q_page_size p < 1 \<or> q_page_size p > 100 then Inl (ValidationError ''page_size'')
      else if sort_by p \<notin> set SORT_FIELDS then Inl (ValidationError ''sort_by'')
      else
        let rows = ordered_rows ds p;
            n = nat (q_page_size p);
            k = nat (q_page p)
        in Inr \<lparr>items = take n (drop ((k - 1) * n) rows),
                total_rows = length rows,
                page = k,
                page_size = n,
                total_pages = (length rows + n - 1) div n\<rparr>)"

text \<open>Sample data for the search operation: four rows of one report date; the first and
  the last tie on the annual return, the third has none.\<close>

definition sample_row :: "string \<Rightarrow> (string \<times> real) list \<Rightarrow> search_row" where
  "sample_row c ms = \<lparr>row_fund_code = c, row_fund_name = c, row_manager_name = None,
     row_strategy_id = Some 5, row_report_date = (2025, 12, 19), row_metrics = ms\<rparr>"

definition sample_rows :: "search_row list" where
  "sample_rows =
     [sample_row ''HF000001'' [(''annual_return'', 0.25)],
      sample_row ''HF000002'' [(''annual_return'', 0.5)],
      sample_row ''HF000003'' [],
      sample_row ''HF000004'' [(''annual_return'', 0.25)]]"

definition sample_params :: search_params where
  "sample_params = \<lparr>keyword = None, q_strategy_id = None, min_annual_return = None,
     q_max_drawdown = None, min_sharpe = None, q_report_date = None,
     sort_by = ''annual_return'', order = Desc, q_page = 2, q_page_size = 3\<rparr>"

section \<open>Properties\<close>

subsection \<open>Strategy pie chart\<close>

text \<open>
  C7. For every distribution list, the chart's series holds one datum for each of the
  first ten entries and for no other: at most ten data, with the entries' values in
  their order, and each name either the entry's own or, when it is longer than 15 code
  units, its first 15 code units followed by three dots.
\<close>

theorem pie_chart_first_ten:
  "length (pie_series_data data) = min 10 (length data)
   \<and> length (pie_series_data data) \<le> 10
   \<and> map pie_value (pie_series_data data) = map sd_value (take 10 data)
   \<and> map pie_name (pie_series_data data) =
       map (\<lambda>item. if length (sd_name item) > 15 then take 15 (sd_name item) @ [46, 46, 46]
                    else sd_name item) (take 10 data)"
  by (simp add: pie_series_data_def substring_def ellipsis_def comp_def)

subsection \<open>Column selector\<close>

lemma basic_find:
  "k \<in> {''fund_name'', ''manager_name'', ''strategy_name''} \<Longrightarrow>
   opt_chain (find (\<lambda>col. key col = k) PERFORMANCE_COLUMNS) (\<lambda>col. Some (category col))
     = Some ''basic''"
  by (auto simp add: PERFORMANCE_COLUMNS_def opt_chain_def)

lemma basic_cols:
  "map key (filter (\<lambda>col. category col = ''basic'') PERFORMANCE_COLUMNS)
     = [''fund_name'', ''manager_name'', ''strategy_name'']"
  by (simp add: PERFORMANCE_COLUMNS_def)

lemma toggle_basic_key:
  "k \<in> {''fund_name'', ''manager_name'', ''strategy_name''} \<Longrightarrow> toggleColumn v k = v"
  using basic_find by (simp add: toggleColumn_def Let_def)

lemma toggle_basic_col:
  assumes a: "col \<in> set PERFORMANCE_COLUMNS" and b: "category col = ''basic''"
  shows "toggleColumn v (key col) = v"
proof -
  from a b have "col \<in> set (filter (\<lambda>col. category col = ''basic'') PERFORMANCE_COLUMNS)"
    by simp
  then have "key col \<in> set (map key (filter (\<lambda>col. category col = ''basic'') PERFORMANCE_COLUMNS))"
    unfolding set_map by (rule imageI)
  then have "key col \<in> {''fund_name'', ''manager_name'', ''strategy_name''}"
    unfolding basic_cols by simp
  then show ?thesis by (rule toggle_basic_key)
qed

lemma toggle_keeps_basic:
  assumes "x \<in> {''fund_name'', ''manager_name'', ''strategy_name''}" and "x \<in> set v"
  shows "x \<in> set (toggleColumn v k)"
proof (cases "k = x")
  case True
  then show ?thesis using assms toggle_basic_key[of k v] by simp
next
  case False
  then show ?thesis using assms(2) by (simp add: toggleColumn_def Let_def)
qed

lemma default_has_basic:
  "{''fund_name'', ''manager_name'', ''strategy_name''} \<subseteq> set getDefaultVisibleColumns"
  by (simp add: getDefaultVisibleColumns_def PERFORMANCE_COLUMNS_def)

lemma all_has_basic:
  "{''fund_name'', ''manager_name'', ''strategy_name''} \<subseteq> set (map key PERFORMANCE_COLUMNS)"
  by (simp add: PERFORMANCE_COLUMNS_def)

lemma step_keeps_basic:
  assumes "{''fund_name'', ''manager_name'', ''strategy_name''} \<subseteq> set v"
  shows "{''fund_name'', ''manager_name'', ''strategy_name''} \<subseteq> set (column_step v a)"
proof (cases a)
  case (ToggleColumn k)
  have "x \<in> set (toggleColumn v k)"
    if "x \<in> {''fund_name'', ''manager_name'', ''strategy_name''}" for x
    using that assms by (intro toggle_keeps_basic) auto
  then show ?thesis using ToggleColumn by auto
next
  case SelectAll
  then show ?thesis using all_has_basic by (simp add: selectAll_def)
next
  case ResetToDefault
  then show ?thesis using default_has_basic by (simp add: resetToDefault_def)
qed

lemma run_keeps_basic:
  "{''fund_name'', ''manager_name'', ''strategy_name''} \<subseteq> set v \<Longrightarrow>
   {''fund_name'', ''manager_name'', ''strategy_name''} \<subseteq> set (column_run v acts)"
  unfolding column_run_def
proof (induction acts arbitrary: v)
  case Nil
  then show ?case by simp
next
  case (Cons a acts)
  from Cons.prems
  have "{''fund_name'', ''manager_name'', ''strategy_name''} \<subseteq> set (column_step v a)"
    by (rule step_keeps_basic)
  then show ?case using Cons.IH by simp
qed

text \<open>
  C10. The columns of category \<open>basic\<close> are exactly \<open>fund_name\<close>, \<open>manager_name\<close> and
  \<open>strategy_name\<close>, and all three are visible after every sequence of toggleColumn,
  selectAll and resetToDefault calls that starts from the default set. toggleColumn
  changes nothing for a column of category \<open>basic\<close>, selectAll gives the keys of the whole
  column list, and resetToDefault gives the default set, which holds the three.
\<close>

theorem basic_columns_stay_visible:
  "{''fund_name'', ''manager_name'', ''strategy_name''}
      \<subseteq> set (column_run getDefaultVisibleColumns acts)
   \<and> (\<forall>col \<in> set PERFORMANCE_COLUMNS.
         category col = ''basic'' \<longrightarrow> toggleColumn v (key col) = v)
   \<and> selectAll v = map key PERFORMANCE_COLUMNS
   \<and> resetToDefault v = getDefaultVisibleColumns
   \<and> {''fund_name'', ''manager_name'', ''strategy_name''} \<subseteq> set getDefaultVisibleColumns
   \<and> map key (filter (\<lambda>col. category col = ''basic'') PERFORMANCE_COLUMNS)
        = [''fund_name'', ''manager_name'', ''strategy_name'']"
proof (intro conjI ballI impI)
  show "{''fund_name'', ''manager_name'', ''strategy_name''}
      \<subseteq> set (column_run getDefaultVisibleColumns acts)"
    using default_has_basic by (rule run_keeps_basic)
next
  fix col assume "col \<in> set PERFORMANCE_COLUMNS" "category col = ''basic''"
  then show "toggleColumn v (key col) = v" by (rule toggle_basic_col)
next
  show "{''fund_name'', ''manager_name'', ''strategy_name''} \<subseteq> set getDefaultVisibleColumns"
    by (rule default_has_basic)
qed (simp_all add: selectAll_def resetToDefault_def basic_cols)

theorem basic_columns_stay_visible_witness:
  "''fund_name'' \<in> set (column_run getDefaultVisibleColumns
        [ToggleColumn ''fund_name'', ToggleColumn ''annual_return'', SelectAll,
         ToggleColumn ''manager_name'', ResetToDefault, ToggleColumn ''ytd_return'',
         ToggleColumn ''strategy_name''])
   \<and> toggleColumn [''fund_name'', ''weekly_return''] ''fund_name''
         = [''fund_name'', ''weekly_return'']
   \<and> toggleColumn [''fund_name'', ''weekly_return''] ''weekly_return'' = [''fund_name'']"
proof -
  let ?acts = "[ToggleColumn ''fund_name'', ToggleColumn ''annual_return'', SelectAll,
         ToggleColumn ''manager_name'', ResetToDefault, ToggleColumn ''ytd_return'',
         ToggleColumn ''strategy_name'']"
  let ?col = "\<lparr>key = ''fund_name'', category = ''basic'', sortable = False,
               defaultVisible = True\<rparr>"
  note inst = basic_columns_stay_visible [of ?acts "[''fund_name'', ''weekly_return'']"]
  have mem: "?col \<in> set PERFORMANCE_COLUMNS"
    by (simp add: PERFORMANCE_COLUMNS_def)
  from inst have 1: "''fund_name'' \<in> set (column_run getDefaultVisibleColumns ?acts)"
    by blast
  from inst have "\<forall>col \<in> set PERFORMANCE_COLUMNS. category col = ''basic'' \<longrightarrow>
      toggleColumn [''fund_name'', ''weekly_return''] (key col) = [''fund_name'', ''weekly_return'']"
    by blast
  with mem have 2: "toggleColumn [''fund_name'', ''weekly_return''] ''fund_name''
      = [''fund_name'', ''weekly_return'']"
    by fastforce
  have 3: "toggleColumn [''fund_name'', ''weekly_return''] ''weekly_return'' = [''fund_name'']"
    by (simp add: toggleColumn_def PERFORMANCE_COLUMNS_def opt_chain_def Let_def)
  from 1 2 3 show ?thesis by simp
qed

subsection \<open>Compare page: the selection and the compare query\<close>

lemma find_code_None:
  "(find (\<lambda>f. fund_code f = c) fs = None) = (c \<notin> fund_code ` set fs)"
  by (auto simp add: find_None_iff)

lemma addFund_inv: "compare_inv s \<Longrightarrow> compare_inv (addFund s fund)"
  by (auto simp add: compare_inv_def addFund_def find_code_None)

lemma removeFund_inv: "compare_inv s \<Longrightarrow> compare_inv (removeFund s c)"
proof -
  assume a: "compare_inv s"
  from a have "length (selectedFunds s) \<le> 5" by (simp add: compare_inv_def)
  with length_filter_le
  have 1: "length (filter (\<lambda>f. fund_code f \<noteq> c) (selectedFunds s)) \<le> 5"
    by (rule le_trans)
  have 2: "distinct (map fund_code (filter (\<lambda>f. fund_code f \<noteq> c) (selectedFunds s)))"
    using a by (simp add: compare_inv_def distinct_map_filter)
  from 1 2 show ?thesis by (simp add: compare_inv_def removeFund_def)
qed

lemma step_inv: "compare_inv s \<Longrightarrow> compare_inv (compare_step s ev)"
proof (cases ev)
  case (AddFund fund)
  then show "compare_inv s \<Longrightarrow> ?thesis" by (simp add: addFund_inv)
next
  case (RemoveFund c)
  then show "compare_inv s \<Longrightarrow> ?thesis" by (simp add: removeFund_inv)
qed (simp_all add: compare_inv_def handleInputFocus_def handleInputBlur_def)

lemma foldl_inv: "compare_inv s \<Longrightarrow> compare_inv (foldl compare_step s evs)"
  by (induction evs arbitrary: s) (simp_all add: step_inv)

lemma run_inv: "compare_inv (compare_run evs)"
  unfolding compare_run_def
  by (rule foldl_inv) (simp add: compare_inv_def initial_compare_state_def)

lemma addFund_unchanged:
  "length (selectedFunds s) \<ge> 5 \<or> fund_code fund \<in> fund_code ` set (selectedFunds s)
     \<Longrightarrow> addFund s fund = s"
  by (auto simp add: addFund_def find_code_None)

text \<open>
  C9. After every sequence of events of the Compare page, a comparison request that the
  page issues carries between 2 and 5 fund codes, no code twice. The compare query issues
  a request exactly when at least 2 funds are selected, and addFund changes nothing when
  5 funds are selected already or the candidate's code is among the selected ones.
\<close>

theorem compare_request_codes:
  "(\<forall>req. compare_query (compare_run evs) = Some req \<longrightarrow>
       2 \<le> length (fund_codes req) \<and> length (fund_codes req) \<le> 5 \<and> distinct (fund_codes req))
   \<and> (compare_query s \<noteq> None \<longleftrightarrow> 2 \<le> length (selectedFunds s))
   \<and> (length (selectedFunds s) \<ge> 5 \<or> fund_code fund \<in> fund_code ` set (selectedFunds s)
        \<longrightarrow> addFund s fund = s)"
proof (intro conjI allI impI)
  fix req assume q: "compare_query (compare_run evs) = Some req"
  have inv: "compare_inv (compare_run evs)" by (rule run_inv)
  from q have en: "compare_enabled (compare_run evs)"
    and req: "req = compareFunds (map fund_code (selectedFunds (compare_run evs))) None None"
    by (auto simp add: compare_query_def split: if_splits)
  from req have codes: "fund_codes req = map fund_code (selectedFunds (compare_run evs))"
    by (simp add: compareFunds_def)
  from en show "2 \<le> length (fund_codes req)" by (simp add: codes compare_enabled_def)
  from inv show "length (fund_codes req) \<le> 5" by (simp add: codes compare_inv_def)
  from inv show "distinct (fund_codes req)" by (simp add: codes compare_inv_def)
next
  show "compare_query s \<noteq> None \<longleftrightarrow> 2 \<le> length (selectedFunds s)"
    by (simp add: compare_query_def compare_enabled_def)
next
  assume "length (selectedFunds s) \<ge> 5 \<or> fund_code fund \<in> fund_code ` set (selectedFunds s)"
  then show "addFund s fund = s" by (rule addFund_unchanged)
qed

theorem compare_request_codes_witness:
  "compare_query (compare_run [AddFund (fund_with_code ''HF000001''), InputFocus,
       AddFund (fund_with_code ''HF000002''), AddFund (fund_with_code ''HF000001'')])
     = Some \<lparr>fund_codes = [''HF000001'', ''HF000002''], start_date = None, end_date = None\<rparr>
   \<and> 2 \<le> length [''HF000001'', ''HF000002'']
   \<and> length [''HF000001'', ''HF000002''] \<le> 5
   \<and> distinct [''HF000001'', ''HF000002'']
   \<and> addFund (compare_run [AddFund (fund_with_code ''HF000001'')]) (fund_with_code ''HF000001'')
       = compare_run [AddFund (fund_with_code ''HF000001'')]"
proof -
  let ?evs = "[AddFund (fund_with_code ''HF000001''), InputFocus,
       AddFund (fund_with_code ''HF000002''), AddFund (fund_with_code ''HF000001'')]"
  let ?req = "\<lparr>fund_codes = [''HF000001'', ''HF000002''], start_date = None, end_date = None\<rparr>"
  let ?s = "compare_run [AddFund (fund_with_code ''HF000001'')]"
  note inst = compare_request_codes [of ?evs ?s "fund_with_code ''HF000001''"]
  have q: "compare_query (compare_run ?evs) = Some ?req"
    by (simp add: compare_query_def compare_enabled_def compare_run_def addFund_def
        handleInputFocus_def initial_compare_state_def fund_with_code_def compareFunds_def)
  from inst q have 1: "2 \<le> length (fund_codes ?req) \<and> length (fund_codes ?req) \<le> 5
      \<and> distinct (fund_codes ?req)"
    by blast
  have mem: "fund_code (fund_with_code ''HF000001'') \<in> fund_code ` set (selectedFunds ?s)"
    by (simp add: compare_run_def addFund_def initial_compare_state_def fund_with_code_def)
  from inst mem have 2: "addFund ?s (fund_with_code ''HF000001'') = ?s"
    by blast
  from q 1 2 show ?thesis by simp
qed

subsection \<open>Compare page: the radar chart\<close>

lemma or_zero_chain: "or_zero (opt_chain (latest fund) m) = latest_metric m fund"
  by (simp add: or_zero_def opt_chain_def latest_metric_def split: option.splits)

text \<open>
  C5. For every comparison result with at least one fund, the radar option has the five
  axes with the maxima 1, 5, 2, 0.5 and 0.5, and one series per fund whose only datum is
  the five absolute values of annual return, Sharpe ratio, cumulative return, maximum
  drawdown and volatility of the fund's latest snapshot, a missing snapshot or metric
  counting as 0; the option holds nothing else but the legend of the (shortened) fund
  names. Without data, or without a fund, the option is empty.
\<close>

theorem radar_projection:
  "getRadarOption None = None
   \<and> getRadarOption (Some d) =
       (if funds d = [] then None
        else Some \<lparr>legend_data = map (\<lambda>f. take 10 (cf_fund_name f)) (funds d),
                   legend_bottom = 0,
                   radar_indicator = indicators,
                   radar_radius = ''60%'',
                   series = map (\<lambda>f.
                     \<lparr>series_name = take 10 (cf_fund_name f),
                      series_type = ''radar'',
                      series_data =
                        [\<lparr>datum_value =
                            [\<bar>latest_metric annual_return f\<bar>,
                             \<bar>latest_metric annual_sharpe f\<bar>,
                             \<bar>latest_metric cumulative_return f\<bar>,
                             \<bar>latest_metric max_drawdown f\<bar>,
                             \<bar>latest_metric annual_volatility f\<bar>],
                          datum_name = take 10 (cf_fund_name f)\<rparr>]\<rparr>) (funds d)\<rparr>)
   \<and> map ind_max indicators = [1, 5, 2, 1 / 2, 1 / 2]"
  by (simp add: getRadarOption_def radar_series_def Let_def or_zero_chain substring_def
      indicators_def)

theorem radar_projection_witness:
  "map (\<lambda>s. map datum_value (series_data s))
     (case getRadarOption (Some \<lparr>funds =
          [\<lparr>cf_fund_code = ''HF000001'', cf_fund_name = [72, 70, 49], cf_manager_name = None,
             latest = Some documented_latest\<rparr>,
           \<lparr>cf_fund_code = ''HF000002'', cf_fund_name = [72, 70, 50], cf_manager_name = None,
             latest = None\<rparr>],
          date_range = []\<rparr>) of None \<Rightarrow> [] | Some opt \<Rightarrow> series opt)
     = [[[0.2534, 2.15, 0.8923, 0.1234, 0]], [[0, 0, 0, 0, 0]]]"
  using radar_projection [of "\<lparr>funds =
          [\<lparr>cf_fund_code = ''HF000001'', cf_fund_name = [72, 70, 49], cf_manager_name = None,
             latest = Some documented_latest\<rparr>,
           \<lparr>cf_fund_code = ''HF000002'', cf_fund_name = [72, 70, 50], cf_manager_name = None,
             latest = None\<rparr>],
          date_range = []\<rparr>"]
  by (simp add: latest_metric_def documented_latest_def)

subsection \<open>Performance store\<close>

lemma insert_performance_keys:
  "insert_performance st v = Inr st' \<Longrightarrow>
   \<exists>c d. ins_fund_code v = Some c \<and> ins_report_date v = Some d
     \<and> (c, d) \<notin> set (map uk_fund_date (fund_performance st))
     \<and> map uk_fund_date (fund_performance st') = map uk_fund_date (fund_performance st) @ [(c, d)]"
  by (auto simp add: insert_performance_def uk_fund_date_def split: option.splits if_splits)

lemma insert_fund_keys:
  "insert_fund st c = Inr st' \<Longrightarrow> fund_performance st' = fund_performance st"
  by (auto simp add: insert_fund_def split: if_splits)

lemma store_step_distinct:
  assumes "distinct (map uk_fund_date (fund_performance st))"
  shows "distinct (map uk_fund_date (fund_performance (store_step st stmt)))"
proof (cases "execute st stmt")
  case (Inl e)
  then show ?thesis using assms by (simp add: store_step_def)
next
  case (Inr st')
  then have st': "store_step st stmt = st'" by (simp add: store_step_def)
  show ?thesis
  proof (cases stmt)
    case (InsertFund c)
    with Inr have "fund_performance st' = fund_performance st"
      by (simp add: insert_fund_keys)
    then show ?thesis using assms st' by simp
  next
    case (InsertPerformance v)
    with Inr have "insert_performance st v = Inr st'" by simp
    from insert_performance_keys [OF this] show ?thesis using assms st' by auto
  qed
qed

lemma store_foldl_distinct:
  "distinct (map uk_fund_date (fund_performance st)) \<Longrightarrow>
   distinct (map uk_fund_date (fund_performance (foldl store_step st stmts)))"
  by (induction stmts arbitrary: st) (simp_all add: store_step_distinct)

text \<open>
  C4. In every state of the store, an insert of a performance row whose
  (fund\_code, report\_date) pair a stored row already has is rejected with a duplicate
  entry for the unique key; in particular, after a successful insert every further insert
  of the same pair is rejected. Hence in every store built from the empty one by inserts,
  no two performance rows share the pair.
\<close>

theorem uk_fund_date_rejects_second_row:
  "((c, d) \<in> set (map uk_fund_date (fund_performance st)) \<longrightarrow>
      insert_performance st \<lparr>ins_fund_code = Some c, ins_report_date = Some d, ins_columns = m\<rparr>
        = Inl (DuplicateEntry ''uk_fund_date''))
   \<and> (insert_performance st v = Inr st' \<and> ins_fund_code v' = ins_fund_code v
        \<and> ins_report_date v' = ins_report_date v \<longrightarrow>
      insert_performance st' v' = Inl (DuplicateEntry ''uk_fund_date''))
   \<and> distinct (map uk_fund_date (fund_performance (store_run stmts)))"
proof (intro conjI impI)
  assume "(c, d) \<in> set (map uk_fund_date (fund_performance st))"
  then show "insert_performance st \<lparr>ins_fund_code = Some c, ins_report_date = Some d, ins_columns = m\<rparr>
        = Inl (DuplicateEntry ''uk_fund_date'')"
    by (simp add: insert_performance_def)
next
  assume a: "insert_performance st v = Inr st' \<and> ins_fund_code v' = ins_fund_code v
        \<and> ins_report_date v' = ins_report_date v"
  then obtain c d where cd: "ins_fund_code v = Some c" "ins_report_date v = Some d"
    and keys: "map uk_fund_date (fund_performance st') = map uk_fund_date (fund_performance st) @ [(c, d)]"
    using insert_performance_keys by blast
  from a cd have "ins_fund_code v' = Some c" "ins_report_date v' = Some d" by simp_all
  then show "insert_performance st' v' = Inl (DuplicateEntry ''uk_fund_date'')"
    using keys by (simp add: insert_performance_def)
next
  show "distinct (map uk_fund_date (fund_performance (store_run stmts)))"
    unfolding store_run_def
    by (rule store_foldl_distinct) (simp add: empty_store_def)
qed

theorem uk_fund_date_rejects_second_row_witness:
  "insert_performance
      (store_run [InsertFund ''HF000001'',
                  InsertPerformance \<lparr>ins_fund_code = Some ''HF000001'',
                    ins_report_date = Some (2025, 12, 19), ins_columns = Some (0.2534 :: real)\<rparr>])
      \<lparr>ins_fund_code = Some ''HF000001'', ins_report_date = Some (2025, 12, 19),
       ins_columns = Some 0.3\<rparr>
     = Inl (DuplicateEntry ''uk_fund_date'')
   \<and> map uk_fund_date (fund_performance
        (store_run [InsertFund ''HF000001'',
                    InsertPerformance \<lparr>ins_fund_code = Some ''HF000001'',
                      ins_report_date = Some (2025, 12, 19), ins_columns = Some (0.2534 :: real)\<rparr>,
                    InsertPerformance \<lparr>ins_fund_code = Some ''HF000001'',
                      ins_report_date = Some (2025, 12, 19), ins_columns = Some 0.3\<rparr>,
                    InsertPerformance \<lparr>ins_fund_code = Some ''HF000001'',
                      ins_report_date = Some (2025, 12, 12), ins_columns = None\<rparr>]))
     = [(''HF000001'', (2025, 12, 19)), (''HF000001'', (2025, 12, 12))]"
proof -
  let ?v = "\<lparr>ins_fund_code = Some ''HF000001'', ins_report_date = Some (2025, 12, 19),
             ins_columns = Some (0.2534 :: real)\<rparr>"
  let ?st = "store_run [InsertFund ''HF000001'', InsertPerformance ?v]"
  have key: "((''HF000001'', (2025, 12, 19)) :: string \<times> sql_date)
      \<in> set (map uk_fund_date (fund_performance ?st))"
    by (simp add: store_run_def store_step_def insert_fund_def insert_performance_def
        empty_store_def uk_fund_date_def)
  from uk_fund_date_rejects_second_row [of "''HF000001''" "(2025, 12, 19)" ?st "Some 0.3"] key
  have 1: "insert_performance ?st \<lparr>ins_fund_code = Some ''HF000001'',
      ins_report_date = Some (2025, 12, 19), ins_columns = Some 0.3\<rparr>
     = Inl (DuplicateEntry ''uk_fund_date'')"
    by blast
  have 2: "map uk_fund_date (fund_performance
        (store_run [InsertFund ''HF000001'', InsertPerformance ?v,
                    InsertPerformance \<lparr>ins_fund_code = Some ''HF000001'',
                      ins_report_date = Some (2025, 12, 19), ins_columns = Some 0.3\<rparr>,
                    InsertPerformance \<lparr>ins_fund_code = Some ''HF000001'',
                      ins_report_date = Some (2025, 12, 12), ins_columns = None\<rparr>]))
     = [(''HF000001'', (2025, 12, 19)), (''HF000001'', (2025, 12, 12))]"
    by (simp add: store_run_def store_step_def insert_fund_def insert_performance_def
        empty_store_def uk_fund_date_def)
  from 1 2 show ?thesis by simp
qed

subsection \<open>Search operation: pagination\<close>

lemma mset_insort_by: "mset (insort_by le k x xs) = add_mset x (mset xs)"
  by (induction xs) auto

lemma mset_order_by: "mset (order_by le k xs) = mset xs"
  unfolding order_by_def by (induction xs) (auto simp add: mset_insort_by)

lemma length_order_by: "length (order_by le k xs) = length xs"
  using mset_order_by [of le k xs] by (metis size_mset)

lemma length_ordered_rows: "length (ordered_rows ds p) = length (matching_rows ds p)"
  by (simp add: ordered_rows_def length_order_by split: sort_order.split)

lemma pages_ceiling:
  assumes n: "0 < n"
  shows "(t + n - 1) div n = nat \<lceil>real t / real n\<rceil>"
proof -
  define q where "q = (t + n - 1) div n"
  have "q * n \<le> t + n - 1" unfolding q_def by (rule div_times_less_eq_dividend)
  with n have up: "q * n < t + n" by linarith
  have "t + n - 1 < n + q * n" unfolding q_def using n by (rule dividend_less_div_times)
  with n have lo: "t \<le> q * n" by linarith
  from lo have "real t \<le> real (q * n)" by (rule of_nat_mono)
  then have 1: "real t / real n \<le> real q" using n by (simp add: pos_divide_le_eq)
  from up have "real (q * n) < real (t + n)" by (simp only: of_nat_less_iff)
  then have "(real q - 1) * real n < real t" by (simp add: algebra_simps)
  then have 2: "real q - 1 < real t / real n" using n by (simp add: pos_less_divide_eq)
  from 1 2 have "\<lceil>real t / real n\<rceil> = int q"
    by (intro ceiling_unique) simp_all
  then show ?thesis unfolding q_def by simp
qed

text \<open>The page counts of the two paginated examples of the API document: 4076 funds and
  1434 managers in pages of 20.\<close>

lemma documented_total_pages:
  "(4076 + 20 - 1) div 20 = (204 :: nat)" "(1434 + 20 - 1) div 20 = (72 :: nat)"
  by simp_all

text \<open>
  C1. For every data set and every valid combination of filter, sort and pagination
  inputs (a page of at least 1, a page size from 1 to 100, a sort field of the
  allow-list), the search operation answers with a page whose total is the number of
  matching rows, whose total\_pages is the ceiling of total / page\_size, and whose items
  are at most page\_size many.
\<close>

theorem search_page_counts:
  assumes "valid_search p"
  shows "\<exists>r. search_funds ds p = Inr r
           \<and> total_rows r = length (matching_rows ds p)
           \<and> page r = nat (q_page p) \<and> page_size r = nat (q_page_size p)
           \<and> total_pages r = nat \<lceil>real (total_rows r) / real (page_size r)\<rceil>
           \<and> length (items r) \<le> page_size r"
proof -
  let ?rows = "ordered_rows ds p" and ?n = "nat (q_page_size p)" and ?k = "nat (q_page p)"
  let ?r = "\<lparr>items = take ?n (drop ((?k - 1) * ?n) ?rows), total_rows = length ?rows, page = ?k,
             page_size = ?n, total_pages = (length ?rows + ?n - 1) div ?n\<rparr>"
  from assms have n: "0 < ?n" by (simp add: valid_search_def)
  from assms have "search_funds ds p = Inr ?r"
    by (simp add: search_funds_def valid_search_def Let_def)
  moreover have "total_rows ?r = length (matching_rows ds p)"
    by (simp add: length_ordered_rows)
  moreover have "total_pages ?r = nat \<lceil>real (total_rows ?r) / real (page_size ?r)\<rceil>"
    using pages_ceiling [OF n] by simp
  moreover have "length (items ?r) \<le> page_size ?r" by simp
  ultimately show ?thesis by simp
qed

theorem search_page_counts_witness:
  "valid_search sample_params
   \<and> (\<exists>r. search_funds \<lparr>ds_rows = sample_rows, ds_latest_date = Some (2025, 12, 19)\<rparr>
              sample_params = Inr r
          \<and> map row_fund_code (items r) = [''HF000003'']
          \<and> total_rows r = 4 \<and> page r = 2 \<and> page_size r = 3 \<and> total_pages r = 2
          \<and> total_pages r = nat \<lceil>real (total_rows r) / real (page_size r)\<rceil>
          \<and> length (items r) \<le> page_size r)"
proof -
  let ?ds = "\<lparr>ds_rows = sample_rows, ds_latest_date = Some (2025, 12, 19)\<rparr>"
  have v: "valid_search sample_params"
    by (simp add: valid_search_def sample_params_def SORT_FIELDS_def)
  from search_page_counts [OF v, of ?ds] obtain r where
    r: "search_funds ?ds sample_params = Inr r"
    and c: "total_pages r = nat \<lceil>real (total_rows r) / real (page_size r)\<rceil>"
    and l: "length (items r) \<le> page_size r"
    by blast
  have m: "matching_rows ?ds sample_params = sample_rows"
    by (simp add: matching_rows_def matches_def sample_rows_def sample_row_def
        sample_params_def at_least_def at_most_def)
  have o: "map row_fund_code (ordered_rows ?ds sample_params)
      = [''HF000002'', ''HF000001'', ''HF000004'', ''HF000003'']"
    unfolding ordered_rows_def m
    by (simp add: sample_params_def sample_rows_def sample_row_def order_by_def metric_def)
  have len: "length (ordered_rows ?ds sample_params) = 4"
    using arg_cong [OF o, of length] by simp
  have f: "q_page sample_params = 2" "q_page_size sample_params = 3"
    "sort_by sample_params = ''annual_return''"
    by (simp_all add: sample_params_def)
  have e: "search_funds ?ds sample_params =
      Inr \<lparr>items = take 3 (drop 3 (ordered_rows ?ds sample_params)), total_rows = 4, page = 2,
           page_size = 3, total_pages = 2\<rparr>"
    by (simp add: search_funds_def Let_def f SORT_FIELDS_def len)
  from r e have r': "r = \<lparr>items = take 3 (drop 3 (ordered_rows ?ds sample_params)), total_rows = 4,
      page = 2, page_size = 3, total_pages = 2\<rparr>"
    by simp
  have "map row_fund_code (items r)
      = take 3 (drop 3 (map row_fund_code (ordered_rows ?ds sample_params)))"
    unfolding r' by (simp add: take_map drop_map)
  then have items: "map row_fund_code (items r) = [''HF000003'']"
    unfolding o by simp
  from r' have rest: "total_rows r = 4 \<and> page r = 2 \<and> page_size r = 3 \<and> total_pages r = 2"
    by simp
  from v r items rest c l show ?thesis by simp
qed

subsection \<open>Search operation: the two sort directions\<close>

lemma set_insort_by: "set (insort_by le k x xs) = insert x (set xs)"
  using mset_insort_by [of le k x xs] by (metis set_mset_add_mset_insert set_mset_mset)

lemma sorted_insort_by:
  assumes tot: "\<And>a b. le a b \<or> le b a" and trans: "\<And>a b c. le a b \<Longrightarrow> le b c \<Longrightarrow> le a c"
  shows "sorted_wrt (\<lambda>a b. le (k a) (k b)) xs \<Longrightarrow>
         sorted_wrt (\<lambda>a b. le (k a) (k b)) (insort_by le k x xs)"
proof (induction xs)
  case Nil
  then show ?case by simp
next
  case (Cons y ys)
  show ?case
  proof (cases "le (k x) (k y)")
    case True
    then show ?thesis using Cons.prems trans by auto
  next
    case False
    then have "le (k y) (k x)" using tot by blast
    then show ?thesis using False Cons by (auto simp add: set_insort_by)
  qed
qed

lemma sorted_order_by:
  assumes tot: "\<And>a b. le a b \<or> le b a" and trans: "\<And>a b c. le a b \<Longrightarrow> le b c \<Longrightarrow> le a c"
  shows "sorted_wrt (\<lambda>a b. le (k a) (k b)) (order_by le k xs)"
  unfolding order_by_def
  by (induction xs) (auto intro: sorted_insort_by [OF tot trans])

lemma asc_sorted:
  fixes k :: "'a \<Rightarrow> 'k::linorder"
  shows "sorted (map k (order_by (\<lambda>a b. a \<le> b) k xs))"
proof -
  have "sorted_wrt (\<lambda>a b. k a \<le> k b) (order_by (\<lambda>a b. a \<le> b) k xs)"
    by (rule sorted_order_by) auto
  then show ?thesis by (simp add: sorted_map)
qed

lemma desc_sorted:
  fixes k :: "'a \<Rightarrow> 'k::linorder"
  shows "sorted (rev (map k (order_by (\<lambda>a b. a \<ge> b) k xs)))"
proof -
  have "sorted_wrt (\<lambda>a b. k a \<ge> k b) (order_by (\<lambda>a b. a \<ge> b) k xs)"
    by (rule sorted_order_by) auto
  then show ?thesis by (simp add: sorted_wrt_rev sorted_wrt_map)
qed

lemma desc_keys_rev_asc:
  fixes k :: "'a \<Rightarrow> 'k::linorder"
  shows "map k (order_by (\<lambda>a b. a \<ge> b) k xs) = rev (map k (order_by (\<lambda>a b. a \<le> b) k xs))"
proof -
  have 1: "sort (map k xs) = map k (order_by (\<lambda>a b. a \<le> b) k xs)"
    by (rule properties_for_sort) (simp_all add: mset_order_by asc_sorted)
  have 2: "sort (map k xs) = rev (map k (order_by (\<lambda>a b. a \<ge> b) k xs))"
    by (rule properties_for_sort) (simp_all add: mset_order_by desc_sorted)
  from 1 2
  have "rev (map k (order_by (\<lambda>a b. a \<ge> b) k xs)) = map k (order_by (\<lambda>a b. a \<le> b) k xs)"
    by simp
  then show ?thesis by (metis rev_rev_ident)
qed

lemma desc_rev_asc_distinct:
  fixes k :: "'a \<Rightarrow> 'k::linorder"
  assumes "distinct (map k xs)"
  shows "order_by (\<lambda>a b. a \<ge> b) k xs = rev (order_by (\<lambda>a b. a \<le> b) k xs)"
proof -
  let ?d = "order_by (\<lambda>a b. a \<ge> b) k xs" and ?a = "order_by (\<lambda>a b. a \<le> b) k xs"
  from assms have inj: "inj_on k (set xs)" by (simp add: distinct_map)
  have sets: "set ?d = set xs" "set (rev ?a) = set xs"
    using mset_order_by [of "\<lambda>a b. a \<ge> b" k xs] mset_order_by [of "\<lambda>a b. a \<le> b" k xs]
    by (metis set_mset_mset, metis set_mset_mset set_rev)
  have "map k ?d = map k (rev ?a)" by (simp add: desc_keys_rev_asc rev_map)
  moreover have "inj_on k (set ?d \<union> set (rev ?a))" using inj sets by simp
  ultimately show ?thesis by (rule map_inj_on)
qed

lemma matches_order: "matches ds (p\<lparr>order := d\<rparr>) = matches ds p"
  by (rule ext) (simp add: matches_def)

lemma matching_rows_order: "matching_rows ds (p\<lparr>order := d\<rparr>) = matching_rows ds p"
  by (simp add: matching_rows_def matches_order)

text \<open>Rows that tie on the sort value keep the row order of the data in both directions,
  so with a tie the two sequences of rows are not each other's reverse.\<close>

lemma tied_rows_keep_their_order:
  "map row_fund_code (ordered_rows \<lparr>ds_rows = sample_rows, ds_latest_date = Some (2025, 12, 19)\<rparr>
      (sample_params\<lparr>order := Desc\<rparr>)) = [''HF000002'', ''HF000001'', ''HF000004'', ''HF000003'']"
  "map row_fund_code (ordered_rows \<lparr>ds_rows = sample_rows, ds_latest_date = Some (2025, 12, 19)\<rparr>
      (sample_params\<lparr>order := Asc\<rparr>)) = [''HF000003'', ''HF000001'', ''HF000004'', ''HF000002'']"
  by (simp_all add: ordered_rows_def matching_rows_def matches_def sample_rows_def
      sample_row_def sample_params_def at_least_def at_most_def order_by_def metric_def)

text \<open>The pages of the search operation are cut from the ordered rows.\<close>

lemma search_funds_items:
  "search_funds ds p = Inr r \<Longrightarrow>
   items r = take (page_size r) (drop ((page r - 1) * page_size r) (ordered_rows ds p))"
  by (auto simp add: search_funds_def Let_def split: if_splits)

text \<open>
  C8. For every data set, every filter combination and every sort field, the rows in
  descending order and the rows in ascending order are the same rows, and the sequence of
  their sort values in descending order is the exact reverse of the sequence in
  ascending order; when no two matching rows tie on the sort value, the sequence of rows
  itself is the exact reverse.
\<close>

theorem desc_is_reverse_of_asc:
  "map (metric (sort_by p)) (ordered_rows ds (p\<lparr>order := Desc\<rparr>))
     = rev (map (metric (sort_by p)) (ordered_rows ds (p\<lparr>order := Asc\<rparr>)))
   \<and> mset (ordered_rows ds (p\<lparr>order := Desc\<rparr>)) = mset (ordered_rows ds (p\<lparr>order := Asc\<rparr>))
   \<and> (distinct (map (metric (sort_by p)) (matching_rows ds p)) \<longrightarrow>
        ordered_rows ds (p\<lparr>order := Desc\<rparr>) = rev (ordered_rows ds (p\<lparr>order := Asc\<rparr>)))"
  by (simp add: ordered_rows_def matching_rows_order mset_order_by desc_rev_asc_distinct
      desc_keys_rev_asc [symmetric])

theorem desc_is_reverse_of_asc_witness:
  "map row_fund_code (ordered_rows \<lparr>ds_rows = take 3 sample_rows, ds_latest_date = Some (2025, 12, 19)\<rparr>
        (sample_params\<lparr>order := Desc\<rparr>)) = [''HF000002'', ''HF000001'', ''HF000003'']
   \<and> ordered_rows \<lparr>ds_rows = take 3 sample_rows, ds_latest_date = Some (2025, 12, 19)\<rparr>
        (sample_params\<lparr>order := Desc\<rparr>)
     = rev (ordered_rows \<lparr>ds_rows = take 3 sample_rows, ds_latest_date = Some (2025, 12, 19)\<rparr>
        (sample_params\<lparr>order := Asc\<rparr>))"
proof -
  let ?ds = "\<lparr>ds_rows = take 3 sample_rows, ds_latest_date = Some (2025, 12, 19)\<rparr>"
  have m: "matching_rows ?ds sample_params = take 3 sample_rows"
    by (simp add: matching_rows_def matches_def sample_rows_def sample_row_def
        sample_params_def at_least_def at_most_def)
  have d: "distinct (map (metric (sort_by sample_params)) (matching_rows ?ds sample_params))"
    unfolding m by (simp add: sample_rows_def sample_row_def sample_params_def metric_def)
  have o: "map row_fund_code (ordered_rows ?ds (sample_params\<lparr>order := Desc\<rparr>))
      = [''HF000002'', ''HF000001'', ''HF000003'']"
    unfolding ordered_rows_def matching_rows_order m
    by (simp add: sample_params_def sample_rows_def sample_row_def order_by_def metric_def)
  from desc_is_reverse_of_asc [of sample_params ?ds] d
  have "ordered_rows ?ds (sample_params\<lparr>order := Desc\<rparr>)
      = rev (ordered_rows ?ds (sample_params\<lparr>order := Asc\<rparr>))"
    by blast
  with o show ?thesis by simp
qed

end
